theory Spec2Isabelle
  imports Main "HOL-Library.Word"
begin

section \<open>The stack of \<^verbatim>\<open>lib/cdk-test-stack.ts\<close>\<close>

text \<open>
  The repository is one class, \<^verbatim>\<open>CdkTestStack\<close>, whose constructor declares the resources
  of a stack one after the other and wires them by passing the objects created so far.
  The model below follows the constructor statement by statement:
  \<^item> the properties object given to a construct is a record with the properties the source
    writes (a property name used by two constructs gets a prefix);
  \<^item> a construct is referred to by the id under which it is created in the stack
    (\<^verbatim>\<open>new ec2.Vpc(this, "TestAPIVPC", ...)\<close> is referred to as \<open>''TestAPIVPC''\<close>);
  \<^item> the mutating calls (\<^verbatim>\<open>addIngressRule\<close>, \<^verbatim>\<open>addManagedPolicy\<close>, \<^verbatim>\<open>addToPolicy\<close>,
    \<^verbatim>\<open>addContainer\<close>, \<^verbatim>\<open>addStage\<close>) return the updated construct;
  \<^item> an exception thrown in the constructor is the \<open>Inl\<close> of the result.
\<close>

subsection \<open>Values of the deployment context\<close>

text \<open>
  \<^verbatim>\<open>tryGetContext\<close> returns a value of type \<^verbatim>\<open>any\<close>: whatever JSON value the deployer
  supplied under the key, or \<^verbatim>\<open>undefined\<close>. A number is a double, given by its 64 bits.
  The own properties of an object are an association list.
\<close>

datatype jsval =
    JUndefined
  | JNull
  | JBool bool
  | JNum "64 word"
  | JStr string
  | JArr "jsval list"
  | JObj "(string \<times> jsval) list"

datatype error = TypeError | Error

definition tryGetContext :: "(string \<rightharpoonup> jsval) \<Rightarrow> string \<Rightarrow> jsval" where
  "tryGetContext context key = (case context key of None \<Rightarrow> JUndefined | Some v \<Rightarrow> v)"

text \<open>
  The property read \<^verbatim>\<open>v.k\<close>, for a property name \<open>k\<close> that no prototype defines (as
  \<^verbatim>\<open>myIPAddress\<close>): on \<^verbatim>\<open>undefined\<close> and \<^verbatim>\<open>null\<close> it throws a TypeError, on an object it
  is the own property or \<^verbatim>\<open>undefined\<close>, on every other value it is \<^verbatim>\<open>undefined\<close>.
\<close>

fun get_member :: "jsval \<Rightarrow> string \<Rightarrow> error + jsval" where
  "get_member JUndefined k = Inl TypeError"
| "get_member JNull k = Inl TypeError"
| "get_member (JObj kvs) k = Inr (case map_of kvs k of None \<Rightarrow> JUndefined | Some v \<Rightarrow> v)"
| "get_member v k = Inr JUndefined"

subsection \<open>Network, security group, registry, cluster\<close>

type_synonym construct_id = string

datatype subnet_type = PUBLIC | PRIVATE_WITH_EGRESS | PRIVATE_ISOLATED

record subnet_configuration =
  cidrMask :: nat
  subnet_name :: string
  subnetType :: subnet_type

record vpc =
  vpc_id :: construct_id
  cidr :: string
  maxAzs :: nat
  subnetConfiguration :: "subnet_configuration list"

text \<open>The peer \<^verbatim>\<open>ec2.Peer.ipv4\<close> returns keeps the value it was given as its \<^verbatim>\<open>cidrIp\<close>.\<close>

datatype peer = CidrIPv4 jsval

datatype port = Port_tcp nat | Port_udp nat | Port_allTraffic

record ingress_rule =
  rule_peer :: peer
  rule_connection :: port

record security_group =
  sg_id :: construct_id
  sg_vpc :: construct_id
  allowAllOutbound :: bool
  securityGroupName :: string
  ingress_rules :: "ingress_rule list"

text \<open>
  \<^verbatim>\<open>ec2.Peer.ipv4\<close> belongs to the toolkit, not to this repository. It receives the value
  read from the context, whatever its type, and
  \<^item> returns the peer of the value, unchecked, when \<^verbatim>\<open>Token.isUnresolved\<close> holds of it;
  \<^item> otherwise calls \<^verbatim>\<open>match\<close> on the value, which throws a TypeError for a value that
    is not a string, throws an Error for a string that is not an IPv4 address with a
    mask, and returns the peer of the string for the others.

  \<^verbatim>\<open>Token.isUnresolved\<close> looks at a string, at a number and at the string of a
  one-element array, each with a test of its own, and is false of every other JSON
  value (an object parsed from JSON has no \<^verbatim>\<open>resolve\<close> method). These three tests and
  the test of the address are the toolkit's; they are the parameters of the model, and
  every theorem below holds whatever they are.
\<close>

record toolkit =
  token_string :: "string \<Rightarrow> bool"
  token_number :: "64 word \<Rightarrow> bool"
  list_token :: "string \<Rightarrow> bool"
  cidr_ok :: "string \<Rightarrow> bool"

fun isUnresolved :: "toolkit \<Rightarrow> jsval \<Rightarrow> bool" where
  "isUnresolved tk (JStr s) = token_string tk s"
| "isUnresolved tk (JNum d) = token_number tk d"
| "isUnresolved tk (JArr [JStr s]) = list_token tk s"
| "isUnresolved tk v = False"

definition Peer_ipv4 :: "toolkit \<Rightarrow> jsval \<Rightarrow> error + peer" where
  "Peer_ipv4 tk v =
     (if isUnresolved tk v then Inr (CidrIPv4 v)
      else case v of
             JStr s \<Rightarrow> if cidr_ok tk s then Inr (CidrIPv4 v) else Inl Error
           | _ \<Rightarrow> Inl TypeError)"

definition addIngressRule :: "security_group \<Rightarrow> peer \<Rightarrow> port \<Rightarrow> security_group" where
  "addIngressRule sg p c =
     sg\<lparr>ingress_rules := ingress_rules sg @ [\<lparr>rule_peer = p, rule_connection = c\<rparr>]\<rparr>"

record ecr_repository =
  ecr_id :: construct_id
  ecr_repositoryName :: string

record cluster =
  cluster_id :: construct_id
  cluster_vpc :: construct_id

subsection \<open>Roles\<close>

datatype principal = ServicePrincipal string

record policy_statement =
  statement_actions :: "string list"
  statement_resources :: "string list"

record role =
  role_id :: construct_id
  assumedBy :: principal
  managedPolicies :: "string list"
  policy :: "policy_statement list"

definition addManagedPolicy :: "role \<Rightarrow> string \<Rightarrow> role" where
  "addManagedPolicy r p = r\<lparr>managedPolicies := managedPolicies r @ [p]\<rparr>"

definition addToPolicy :: "role \<Rightarrow> policy_statement \<Rightarrow> role" where
  "addToPolicy r s = r\<lparr>policy := policy r @ [s]\<rparr>"

subsection \<open>Task definition and service\<close>

datatype compatibility = EC2 | FARGATE | EC2_AND_FARGATE | EXTERNAL
datatype network_mode = NONE | BRIDGE | AWS_VPC | HOST | NAT
datatype cpu_architecture = ARM64 | X86_64
datatype protocol = TCP | UDP
datatype container_image = fromEcrRepository construct_id

record runtime_platform =
  cpuArchitecture :: cpu_architecture

record port_mapping =
  pm_name :: string
  containerPort :: nat
  hostPort :: nat
  pm_protocol :: protocol

record container_definition =
  container_id :: string
  image :: container_image
  portMappings :: "port_mapping list"
  essential :: bool

record task_definition =
  task_id :: construct_id
  family :: string
  task_compatibility :: compatibility
  networkMode :: network_mode
  cpu :: string
  memoryMiB :: string
  executionRole :: construct_id
  taskRole :: construct_id
  runtimePlatform :: runtime_platform
  containers :: "container_definition list"

definition addContainer :: "task_definition \<Rightarrow> container_definition \<Rightarrow> task_definition" where
  "addContainer t c = t\<lparr>containers := containers t @ [c]\<rparr>"

record fargate_service =
  service_id :: construct_id
  service_cluster :: construct_id
  service_taskDefinition :: construct_id
  desiredCount :: nat
  securityGroups :: "construct_id list"

subsection \<open>Pipeline\<close>

text \<open>
  A command of the build specification is a string; one of them is a template literal
  that interpolates \<^verbatim>\<open>testAPIECRRepository.repositoryUri\<close>, a value the toolkit resolves
  at deployment. A command is therefore a list of fragments: literal text, or the
  repository URI of a registry.
\<close>

datatype fragment = Text string | repositoryUri construct_id

type_synonym command = "fragment list"

record phase =
  commands :: "command list"

record phases =
  pre_build :: phase
  build :: phase
  post_build :: phase

record artifacts =
  files :: "string list"

record build_spec =
  version :: string
  spec_phases :: phases
  spec_artifacts :: artifacts

record pipeline_project =
  project_id :: construct_id
  project_role :: construct_id
  buildSpec :: build_spec

record codecommit_repository =
  repo_id :: construct_id
  repo_repositoryName :: string

text \<open>
  \<^verbatim>\<open>new codepipeline.Artifact()\<close> is called without a name; an artifact is identified by
  its rank among the artifacts the constructor creates.
\<close>

datatype artifact = Artifact nat

record source_action =
  source_actionName :: string
  source_repository :: construct_id
  source_output :: artifact

text \<open>The optional property \<^verbatim>\<open>outputs\<close> of a build action is the empty list when omitted.\<close>

record build_action =
  build_actionName :: string
  build_project :: construct_id
  build_input :: artifact
  build_outputs :: "artifact list"

record deploy_action =
  deploy_actionName :: string
  deploy_service :: construct_id
  deploy_input :: artifact

datatype action =
    CodeCommitSourceAction source_action
  | CodeBuildAction build_action
  | EcsDeployAction deploy_action

record stage =
  stageName :: string
  stage_actions :: "action list"

record pipeline =
  pipeline_id :: construct_id
  pipelineName :: string
  stages :: "stage list"

definition addStage :: "pipeline \<Rightarrow> stage \<Rightarrow> pipeline" where
  "addStage p s = p\<lparr>stages := stages p @ [s]\<rparr>"

subsection \<open>The stack\<close>

text \<open>The constructs of the stack, each under its construct id.\<close>

record stack =
  TestAPIVPC :: vpc
  TestAPISecurityGroup :: security_group
  TestAPIECRRepository :: ecr_repository
  TestAPICluster :: cluster
  TestAPITaskRole :: role
  TestAPITaskDefinition :: task_definition
  TestAPIService :: fargate_service
  TestAPIPipeline :: pipeline
  TestAPIRepository :: codecommit_repository
  TestAPIBuildRole :: role
  TestAPIBuild :: pipeline_project

text \<open>
  The build specification, the object given to \<^verbatim>\<open>codebuild.BuildSpec.fromObject\<close>. The
  first command ends with a bracketed note written in Japanese (it reads: the string
  obtained by deleting the repository name from repositoryUri); its characters are given
  as the bytes of their UTF-8 encoding.
\<close>

definition login_note :: string where
  "login_note =
     ''[repositoryUri'' @
          [CHR 0xE3, CHR 0x81, CHR 0x8B, CHR 0xE3, CHR 0x82, CHR 0x89, CHR 0xE3, CHR 0x83, CHR 0xAA,
           CHR 0xE3, CHR 0x83, CHR 0x9D, CHR 0xE3, CHR 0x82, CHR 0xB8, CHR 0xE3, CHR 0x83, CHR 0x88,
           CHR 0xE3, CHR 0x83, CHR 0xAA, CHR 0xE5, CHR 0x90, CHR 0x8D, CHR 0xE3, CHR 0x82, CHR 0x92,
           CHR 0xE5, CHR 0x89, CHR 0x8A, CHR 0xE9, CHR 0x99, CHR 0xA4, CHR 0xE3, CHR 0x81, CHR 0x97,
           CHR 0xE3, CHR 0x81, CHR 0x9F, CHR 0xE6, CHR 0x96, CHR 0x87, CHR 0xE5, CHR 0xAD, CHR 0x97,
           CHR 0xE5, CHR 0x88, CHR 0x97] @ '']''"

definition buildSpec_fromObject :: "ecr_repository \<Rightarrow> build_spec" where
  \<open>buildSpec_fromObject testAPIECRRepository =
     \<lparr>version = ''0.2'',
      spec_phases =
        \<lparr>pre_build =
           \<lparr>commands =
              [[Text (''aws ecr get-login-password --region $AWS_DEFAULT_REGION | docker login --username AWS --password-stdin  '' @ login_note)],
               [Text ''REPOSITORY_URI='', repositoryUri (ecr_id testAPIECRRepository)],
               [Text ''COMMIT_HASH=$(echo $CODEBUILD_RESOLVED_SOURCE_VERSION | cut -c 1-7)''],
               [Text ''IMAGE_TAG=${COMMIT_HASH:=latest}'']]\<rparr>,
         build =
           \<lparr>commands =
              [[Text ''n install 16''],
               [Text ''npm install''],
               [Text ''npm test''],
               [Text ''docker build -t $REPOSITORY_URI:latest .''],
               [Text ''docker tag $REPOSITORY_URI:latest $REPOSITORY_URI:$IMAGE_TAG'']]\<rparr>,
         post_build =
           \<lparr>commands =
              [[Text ''docker push $REPOSITORY_URI:latest''],
               [Text ''docker push $REPOSITORY_URI:$IMAGE_TAG''],
               [Text ''printf '[{"name":"next-container-task","imageUri":"%s"}]' $REPOSITORY_URI:latest > imagedefinitions.json'']]\<rparr>\<rparr>,
      spec_artifacts = \<lparr>files = [''imagedefinitions.json'']\<rparr>\<rparr>\<close>

text \<open>
  The constructor. Its arguments \<^verbatim>\<open>scope\<close>, \<^verbatim>\<open>id\<close> and \<^verbatim>\<open>props\<close> go to the base class and
  are not read again; what the constructor reads of its surroundings is the deployment
  context visible from the stack's node, the argument \<open>context\<close>. The statements come
  in the order of the source, and the only ones that can throw are the property read on
  the context value and \<^verbatim>\<open>ec2.Peer.ipv4\<close>.
\<close>

definition CdkTestStack :: "toolkit \<Rightarrow> (string \<rightharpoonup> jsval) \<Rightarrow> error + stack" where
  "CdkTestStack tk context =
    (let testAPIVPC =
           \<lparr>vpc_id = ''TestAPIVPC'',
            cidr = ''10.0.0.0/23'',
            maxAzs = 1,
            subnetConfiguration =
              [\<lparr>cidrMask = 23, subnet_name = ''PublicSubnet'', subnetType = PUBLIC\<rparr>]\<rparr>;
         testAPISecurityGroup =
           \<lparr>sg_id = ''TestAPISecurityGroup'',
            sg_vpc = vpc_id testAPIVPC,
            allowAllOutbound = True,
            securityGroupName = ''TestAPISecurityGroup'',
            ingress_rules = []\<rparr>
     in
     case get_member (tryGetContext context ''env'') ''myIPAddress'' of
       Inl e \<Rightarrow> Inl e
     | Inr myIPAddress \<Rightarrow>
    (case Peer_ipv4 tk myIPAddress of
       Inl e \<Rightarrow> Inl e
     | Inr peer \<Rightarrow>
    (let testAPISecurityGroup = addIngressRule testAPISecurityGroup peer (Port_tcp 80);
         testAPIECRRepository =
           \<lparr>ecr_id = ''TestAPIECRRepository'',
            ecr_repositoryName = ''test-ecr-repository''\<rparr>;
         testAPIECSCluster =
           \<lparr>cluster_id = ''TestAPICluster'', cluster_vpc = vpc_id testAPIVPC\<rparr>;
         testAPITaskRole =
           \<lparr>role_id = ''TestAPITaskRole'',
            assumedBy = ServicePrincipal ''ecs-tasks.amazonaws.com'',
            managedPolicies = [],
            policy = []\<rparr>;
         testAPITaskRole =
           addManagedPolicy testAPITaskRole ''service-role/AmazonECSTaskExecutionRolePolicy'';
         testAPITask =
           \<lparr>task_id = ''TestAPITaskDefinition'',
            family = ''test-api-family'',
            task_compatibility = FARGATE,
            networkMode = AWS_VPC,
            cpu = ''1024'',
            memoryMiB = ''3072'',
            executionRole = role_id testAPITaskRole,
            taskRole = role_id testAPITaskRole,
            runtimePlatform = \<lparr>cpuArchitecture = ARM64\<rparr>,
            containers = []\<rparr>;
         testAPITask =
           addContainer testAPITask
             \<lparr>container_id = ''test-api-task'',
              image = fromEcrRepository (ecr_id testAPIECRRepository),
              portMappings =
                [\<lparr>pm_name = ''test-api-80-tcp'',
                  containerPort = 80,
                  hostPort = 80,
                  pm_protocol = TCP\<rparr>],
              essential = True\<rparr>;
         testAPIService =
           \<lparr>service_id = ''TestAPIService'',
            service_cluster = cluster_id testAPIECSCluster,
            service_taskDefinition = task_id testAPITask,
            desiredCount = 0,
            securityGroups = [sg_id testAPISecurityGroup]\<rparr>;
         testAPIPipeline =
           \<lparr>pipeline_id = ''TestAPIPipeline'',
            pipelineName = ''test-api-pipeline'',
            stages = []\<rparr>;
         repository =
           \<lparr>repo_id = ''TestAPIRepository'', repo_repositoryName = ''test-api''\<rparr>;
         sourceOutput = Artifact 0;
         sourceAction =
           CodeCommitSourceAction
             \<lparr>source_actionName = ''Source'',
              source_repository = repo_id repository,
              source_output = sourceOutput\<rparr>;
         testAPIPipeline =
           addStage testAPIPipeline
             \<lparr>stageName = ''Source'', stage_actions = [sourceAction]\<rparr>;
         buildRole =
           \<lparr>role_id = ''TestAPIBuildRole'',
            assumedBy = ServicePrincipal ''codebuild.amazonaws.com'',
            managedPolicies = [],
            policy = []\<rparr>;
         buildRole =
           addToPolicy buildRole
             \<lparr>statement_actions =
                [''ecr:GetDownloadUrlForLayer'',
                 ''ecr:BatchGetImage'',
                 ''ecr:BatchCheckLayerAvailability''],
              statement_resources = [''*'']\<rparr>;
         buildProject =
           \<lparr>project_id = ''TestAPIBuild'',
            project_role = role_id buildRole,
            buildSpec = buildSpec_fromObject testAPIECRRepository\<rparr>;
         buildAction =
           CodeBuildAction
             \<lparr>build_actionName = ''Build'',
              build_project = project_id buildProject,
              build_input = sourceOutput,
              build_outputs = []\<rparr>;
         testAPIPipeline =
           addStage testAPIPipeline
             \<lparr>stageName = ''Build'', stage_actions = [buildAction]\<rparr>;
         deployAction =
           EcsDeployAction
             \<lparr>deploy_actionName = ''Deploy'',
              deploy_service = service_id testAPIService,
              deploy_input = sourceOutput\<rparr>;
         testAPIPipeline =
           addStage testAPIPipeline
             \<lparr>stageName = ''Deploy'', stage_actions = [deployAction]\<rparr>
     in
     Inr \<lparr>TestAPIVPC = testAPIVPC,
          TestAPISecurityGroup = testAPISecurityGroup,
          TestAPIECRRepository = testAPIECRRepository,
          TestAPICluster = testAPIECSCluster,
          TestAPITaskRole = testAPITaskRole,
          TestAPITaskDefinition = testAPITask,
          TestAPIService = testAPIService,
          TestAPIPipeline = testAPIPipeline,
          TestAPIRepository = repository,
          TestAPIBuildRole = buildRole,
          TestAPIBuild = buildProject\<rparr>)))"

subsection \<open>Reading the declared topology\<close>

text \<open>
  The build service runs the phases of a build specification in the order
  \<^verbatim>\<open>pre_build\<close>, \<^verbatim>\<open>build\<close>, \<^verbatim>\<open>post_build\<close>, and the commands of a phase in the order
  of the list: this is the script of the build stage.
\<close>

definition build_script :: "build_spec \<Rightarrow> command list" where
  "build_script spec =
     commands (pre_build (spec_phases spec)) @
     commands (build (spec_phases spec)) @
     commands (post_build (spec_phases spec))"

text \<open>
  The steps the specification names, recognised by the program a command runs: a command
  is a registry login when it runs \<^verbatim>\<open>docker login\<close>, an image build, tag or push when it
  starts with \<^verbatim>\<open>docker build\<close>, \<^verbatim>\<open>docker tag\<close> or \<^verbatim>\<open>docker push\<close>, and it emits the manifest
  when it redirects its output to \<^verbatim>\<open>imagedefinitions.json\<close>. Every other command is
  \<open>OtherStep\<close>.
\<close>

datatype step = RegistryLogin | BuildImage | TagImage | PushImage | EmitManifest | OtherStep

fun starts_with :: "string \<Rightarrow> string \<Rightarrow> bool" where
  "starts_with [] s = True"
| "starts_with (p # ps) [] = False"
| "starts_with (p # ps) (c # cs) = (p = c \<and> starts_with ps cs)"

fun contains :: "string \<Rightarrow> string \<Rightarrow> bool" where
  "contains p [] = starts_with p []"
| "contains p (c # cs) = (starts_with p (c # cs) \<or> contains p cs)"

fun command_text :: "command \<Rightarrow> string" where
  "command_text (Text s # fs) = s"
| "command_text fs = []"

definition step_of :: "command \<Rightarrow> step" where
  "step_of c =
     (let s = command_text c in
      if contains ''docker login'' s then RegistryLogin
      else if starts_with ''docker build'' s then BuildImage
      else if starts_with ''docker tag'' s then TagImage
      else if starts_with ''docker push'' s then PushImage
      else if contains ''> imagedefinitions.json'' s then EmitManifest
      else OtherStep)"

text \<open>
  The prefix length written in a CIDR string: the decimal number after the slash.
\<close>

definition digit_of :: "char \<Rightarrow> nat option" where
  "digit_of c =
     (let n = (of_char c :: nat) in if 48 \<le> n \<and> n \<le> 57 then Some (n - 48) else None)"

fun decimal_from :: "nat \<Rightarrow> string \<Rightarrow> nat option" where
  "decimal_from acc [] = Some acc"
| "decimal_from acc (c # cs) =
     (case digit_of c of None \<Rightarrow> None | Some d \<Rightarrow> decimal_from (10 * acc + d) cs)"

definition cidr_prefix_length :: "string \<Rightarrow> nat option" where
  "cidr_prefix_length s =
     (case dropWhile (\<lambda>c. c \<noteq> CHR ''/'') s of
        [] \<Rightarrow> None
      | slash # ds \<Rightarrow> if ds = [] then None else decimal_from 0 ds)"

text \<open>
  A deployment that supplies an address: the context \<^verbatim>\<open>{"env": {"myIPAddress":
  "203.0.113.7/32"}}\<close>, with toolkit tests under which this string is no token and is an
  accepted address.
\<close>

definition example_context :: "string \<rightharpoonup> jsval" where
  "example_context = [''env'' \<mapsto> JObj [(''myIPAddress'', JStr ''203.0.113.7/32'')]]"

definition example_toolkit :: toolkit where
  "example_toolkit =
     \<lparr>token_string = (\<lambda>s. False),
      token_number = (\<lambda>d. False),
      list_token = (\<lambda>s. False),
      cidr_ok = (\<lambda>s. s = ''203.0.113.7/32'')\<rparr>"

section \<open>Properties of the declared topology\<close>

subsection \<open>What a successful construction yields\<close>

lemmas constructor_defs =
  CdkTestStack_def Let_def tryGetContext_def Peer_ipv4_def addIngressRule_def
  addManagedPolicy_def addToPolicy_def addContainer_def addStage_def

lemma example_constructs:
  "\<exists>st. CdkTestStack example_toolkit example_context = Inr st"
  by (simp add: constructor_defs example_context_def example_toolkit_def)

lemma constructed_vpc:
  assumes "CdkTestStack tk context = Inr st"
  shows "TestAPIVPC st =
           \<lparr>vpc_id = ''TestAPIVPC'', cidr = ''10.0.0.0/23'', maxAzs = 1,
            subnetConfiguration =
              [\<lparr>cidrMask = 23, subnet_name = ''PublicSubnet'', subnetType = PUBLIC\<rparr>]\<rparr>"
  using assms
  by (auto simp: constructor_defs split: sum.splits)

lemma Peer_ipv4_undefined: "Peer_ipv4 tk JUndefined = Inl TypeError"
  by (simp add: Peer_ipv4_def)

lemma Peer_ipv4_returns:
  assumes "Peer_ipv4 tk v = Inr p"
  shows "p = CidrIPv4 v \<and> (isUnresolved tk v \<or> (\<exists>s. v = JStr s \<and> cidr_ok tk s))"
  using assms
  by (auto simp: Peer_ipv4_def split: if_splits jsval.splits)

lemma read_address:
  assumes "get_member (tryGetContext context ''env'') ''myIPAddress'' = Inr v"
    and "v \<noteq> JUndefined"
  shows "\<exists>kvs. context ''env'' = Some (JObj kvs) \<and> map_of kvs ''myIPAddress'' = Some v"
proof (cases "context ''env''")
  case None
  with assms show ?thesis
    by (simp add: tryGetContext_def)
next
  case (Some env)
  with assms have "get_member env ''myIPAddress'' = Inr v"
    by (simp add: tryGetContext_def)
  with assms(2) Some show ?thesis
    by (cases env) (auto split: option.splits)
qed

lemma constructed_security_group:
  assumes "CdkTestStack tk context = Inr st"
  shows "\<exists>kvs v. context ''env'' = Some (JObj kvs) \<and>
           map_of kvs ''myIPAddress'' = Some v \<and>
           (isUnresolved tk v \<or> (\<exists>s. v = JStr s \<and> cidr_ok tk s)) \<and>
           TestAPISecurityGroup st =
             \<lparr>sg_id = ''TestAPISecurityGroup'', sg_vpc = ''TestAPIVPC'',
              allowAllOutbound = True, securityGroupName = ''TestAPISecurityGroup'',
              ingress_rules = [\<lparr>rule_peer = CidrIPv4 v, rule_connection = Port_tcp 80\<rparr>]\<rparr>"
proof -
  from assms obtain v p where
    read: "get_member (tryGetContext context ''env'') ''myIPAddress'' = Inr v" and
    peer: "Peer_ipv4 tk v = Inr p" and
    sg: "TestAPISecurityGroup st =
           \<lparr>sg_id = ''TestAPISecurityGroup'', sg_vpc = ''TestAPIVPC'',
            allowAllOutbound = True, securityGroupName = ''TestAPISecurityGroup'',
            ingress_rules = [\<lparr>rule_peer = p, rule_connection = Port_tcp 80\<rparr>]\<rparr>"
    by (auto simp: CdkTestStack_def Let_def addIngressRule_def split: sum.splits)
  from peer have "v \<noteq> JUndefined"
    using Peer_ipv4_undefined by auto
  with read obtain kvs where
    env: "context ''env'' = Some (JObj kvs)" "map_of kvs ''myIPAddress'' = Some v"
    using read_address by blast
  from Peer_ipv4_returns [OF peer] have
    p: "p = CidrIPv4 v" and ok: "isUnresolved tk v \<or> (\<exists>s. v = JStr s \<and> cidr_ok tk s)"
    by simp_all
  from env ok sg p show ?thesis
    by (intro exI [of _ kvs] exI [of _ v]) simp
qed

lemma constructed_cluster:
  assumes "CdkTestStack tk context = Inr st"
  shows "TestAPICluster st = \<lparr>cluster_id = ''TestAPICluster'', cluster_vpc = ''TestAPIVPC''\<rparr>"
  using assms
  by (auto simp: constructor_defs split: sum.splits)

lemma constructed_registry:
  assumes "CdkTestStack tk context = Inr st"
  shows "TestAPIECRRepository st =
           \<lparr>ecr_id = ''TestAPIECRRepository'', ecr_repositoryName = ''test-ecr-repository''\<rparr>"
  using assms
  by (auto simp: constructor_defs split: sum.splits)

lemma constructed_task:
  assumes "CdkTestStack tk context = Inr st"
  shows "TestAPITaskDefinition st =
           \<lparr>task_id = ''TestAPITaskDefinition'',
            family = ''test-api-family'',
            task_compatibility = FARGATE,
            networkMode = AWS_VPC,
            cpu = ''1024'',
            memoryMiB = ''3072'',
            executionRole = ''TestAPITaskRole'',
            taskRole = ''TestAPITaskRole'',
            runtimePlatform = \<lparr>cpuArchitecture = ARM64\<rparr>,
            containers =
              [\<lparr>container_id = ''test-api-task'',
                image = fromEcrRepository ''TestAPIECRRepository'',
                portMappings =
                  [\<lparr>pm_name = ''test-api-80-tcp'', containerPort = 80, hostPort = 80,
                    pm_protocol = TCP\<rparr>],
                essential = True\<rparr>]\<rparr>"
  using assms
  by (auto simp: constructor_defs split: sum.splits)

lemma constructed_service:
  assumes "CdkTestStack tk context = Inr st"
  shows "TestAPIService st =
           \<lparr>service_id = ''TestAPIService'',
            service_cluster = ''TestAPICluster'',
            service_taskDefinition = ''TestAPITaskDefinition'',
            desiredCount = 0,
            securityGroups = [''TestAPISecurityGroup'']\<rparr>"
  using assms
  by (auto simp: constructor_defs split: sum.splits)

lemma constructed_source_repository:
  assumes "CdkTestStack tk context = Inr st"
  shows "TestAPIRepository st =
           \<lparr>repo_id = ''TestAPIRepository'', repo_repositoryName = ''test-api''\<rparr>"
  using assms
  by (auto simp: constructor_defs split: sum.splits)

lemma constructed_pipeline:
  assumes "CdkTestStack tk context = Inr st"
  shows "TestAPIPipeline st =
           \<lparr>pipeline_id = ''TestAPIPipeline'',
            pipelineName = ''test-api-pipeline'',
            stages =
              [\<lparr>stageName = ''Source'',
                stage_actions =
                  [CodeCommitSourceAction
                     \<lparr>source_actionName = ''Source'',
                      source_repository = ''TestAPIRepository'',
                      source_output = Artifact 0\<rparr>]\<rparr>,
               \<lparr>stageName = ''Build'',
                stage_actions =
                  [CodeBuildAction
                     \<lparr>build_actionName = ''Build'',
                      build_project = ''TestAPIBuild'',
                      build_input = Artifact 0,
                      build_outputs = []\<rparr>]\<rparr>,
               \<lparr>stageName = ''Deploy'',
                stage_actions =
                  [EcsDeployAction
                     \<lparr>deploy_actionName = ''Deploy'',
                      deploy_service = ''TestAPIService'',
                      deploy_input = Artifact 0\<rparr>]\<rparr>]\<rparr>"
  using assms
  by (auto simp: constructor_defs split: sum.splits)

lemma constructed_build_project:
  assumes "CdkTestStack tk context = Inr st"
  shows "TestAPIBuild st =
           \<lparr>project_id = ''TestAPIBuild'',
            project_role = ''TestAPIBuildRole'',
            buildSpec =
              buildSpec_fromObject
                \<lparr>ecr_id = ''TestAPIECRRepository'',
                 ecr_repositoryName = ''test-ecr-repository''\<rparr>\<rparr>"
  using assms
  by (auto simp: constructor_defs split: sum.splits)

lemma script_steps:
  "map step_of (build_script (buildSpec_fromObject r)) =
     [RegistryLogin, OtherStep, OtherStep, OtherStep, OtherStep, OtherStep, OtherStep,
      BuildImage, TagImage, PushImage, PushImage, EmitManifest]"
  by (simp add: build_script_def buildSpec_fromObject_def step_of_def login_note_def)

subsection \<open>Pipeline\<close>

text \<open>
  C1. The specification lets the deploy action read the manifest output of the build
  stage. In the constructor the build specification writes \<^verbatim>\<open>imagedefinitions.json\<close> and
  declares it as its artifact file, but the build action is created without an output
  artifact and the deploy action receives \<^verbatim>\<open>sourceOutput\<close>, the output of the source
  action. Evaluated for the deployment that supplies the address 203.0.113.7/32: the
  input of the deploy action is the output of the source action, and it is not among the
  outputs of the build action, which has none. The manifest also names the container
  \<^verbatim>\<open>next-container-task\<close>, while the only container of the task is \<^verbatim>\<open>test-api-task\<close>.
\<close>

theorem deploy_action_input_is_source_output:
  \<open>\<exists>st src bld dep.
     CdkTestStack example_toolkit example_context = Inr st \<and>
     map stage_actions (stages (TestAPIPipeline st)) =
       [[CodeCommitSourceAction src], [CodeBuildAction bld], [EcsDeployAction dep]] \<and>
     deploy_input dep = source_output src \<and>
     deploy_input dep \<notin> set (build_outputs bld) \<and>
     build_outputs bld = [] \<and>
     files (spec_artifacts (buildSpec (TestAPIBuild st))) = [''imagedefinitions.json''] \<and>
     last (build_script (buildSpec (TestAPIBuild st))) =
       [Text ''printf '[{"name":"next-container-task","imageUri":"%s"}]' $REPOSITORY_URI:latest > imagedefinitions.json''] \<and>
     map container_id (containers (TestAPITaskDefinition st)) = [''test-api-task'']\<close>
proof -
  obtain st where st: "CdkTestStack example_toolkit example_context = Inr st"
    using example_constructs by blast
  have "files (spec_artifacts (buildSpec (TestAPIBuild st))) = [''imagedefinitions.json'']"
    by (simp add: constructed_build_project [OF st] buildSpec_fromObject_def)
  moreover have
    \<open>last (build_script (buildSpec (TestAPIBuild st))) =
       [Text ''printf '[{"name":"next-container-task","imageUri":"%s"}]' $REPOSITORY_URI:latest > imagedefinitions.json'']\<close>
    by (simp add: constructed_build_project [OF st] buildSpec_fromObject_def build_script_def)
  moreover have "map container_id (containers (TestAPITaskDefinition st)) = [''test-api-task'']"
    by (simp add: constructed_task [OF st])
  ultimately show ?thesis
    using st by (simp add: constructed_pipeline [OF st])
qed

text \<open>
  C3. The pipeline of a constructed stack has exactly three stages, named Source, Build
  and Deploy in this order, each with one action: the source action reads from the
  source repository of the stack, the build action runs the build project of the stack
  on the output of the source action, and the deploy action, which targets the service
  of the stack, is in the last stage.
\<close>

theorem pipeline_stage_order:
  assumes "CdkTestStack tk context = Inr st"
  shows "\<exists>src bld dep.
           stages (TestAPIPipeline st) =
             [\<lparr>stageName = ''Source'', stage_actions = [CodeCommitSourceAction src]\<rparr>,
              \<lparr>stageName = ''Build'', stage_actions = [CodeBuildAction bld]\<rparr>,
              \<lparr>stageName = ''Deploy'', stage_actions = [EcsDeployAction dep]\<rparr>] \<and>
           source_repository src = repo_id (TestAPIRepository st) \<and>
           build_input bld = source_output src \<and>
           build_project bld = project_id (TestAPIBuild st) \<and>
           deploy_service dep = service_id (TestAPIService st)"
  by (simp add: constructed_pipeline [OF assms] constructed_source_repository [OF assms]
        constructed_build_project [OF assms] constructed_service [OF assms])

theorem pipeline_stage_order_witness:
  "\<exists>st src bld dep.
     CdkTestStack example_toolkit example_context = Inr st \<and>
     stages (TestAPIPipeline st) =
       [\<lparr>stageName = ''Source'', stage_actions = [CodeCommitSourceAction src]\<rparr>,
        \<lparr>stageName = ''Build'', stage_actions = [CodeBuildAction bld]\<rparr>,
        \<lparr>stageName = ''Deploy'', stage_actions = [EcsDeployAction dep]\<rparr>] \<and>
     source_repository src = repo_id (TestAPIRepository st) \<and>
     build_input bld = source_output src \<and>
     build_project bld = project_id (TestAPIBuild st) \<and>
     deploy_service dep = service_id (TestAPIService st)"
proof -
  obtain st where st: "CdkTestStack example_toolkit example_context = Inr st"
    using example_constructs by blast
  from pipeline_stage_order [OF st] st show ?thesis
    by blast
qed

text \<open>
  C2, as stated: the ordered steps of the build script are exactly a registry login, an
  image build, a tag, two pushes and the manifest. The script of the stack has twelve
  commands, so the list of its steps is not that list of six.
\<close>

theorem build_script_steps_counterexample:
  "\<not> isl (CdkTestStack example_toolkit example_context) \<and>
   map step_of
     (build_script
        (buildSpec (TestAPIBuild (projr (CdkTestStack example_toolkit example_context))))) \<noteq>
   [RegistryLogin, BuildImage, TagImage, PushImage, PushImage, EmitManifest]"
proof -
  obtain st where st: "CdkTestStack example_toolkit example_context = Inr st"
    using example_constructs by blast
  have "length (map step_of (build_script (buildSpec (TestAPIBuild st)))) = 12"
    by (simp add: constructed_build_project [OF st] script_steps)
  then have "map step_of (build_script (buildSpec (TestAPIBuild st))) \<noteq>
      [RegistryLogin, BuildImage, TagImage, PushImage, PushImage, EmitManifest]"
    by auto
  with st show ?thesis
    by simp
qed

text \<open>
  C2, amended. The build script of a constructed stack has twelve commands. Its registry
  and image steps come in the order: one registry login, one image build, one tag, two
  pushes, one command that writes the manifest. The login is the command
  \<^verbatim>\<open>aws ecr get-login-password --region $AWS_DEFAULT_REGION\<close> piped into
  \<^verbatim>\<open>docker login --username AWS --password-stdin\<close>, followed by the target of the login.
  The build produces the tag \<^verbatim>\<open>latest\<close>, the tag command adds the tag \<^verbatim>\<open>$IMAGE_TAG\<close>, the two pushes push the
  \<^verbatim>\<open>latest\<close> tag and the \<^verbatim>\<open>$IMAGE_TAG\<close> tag, and \<^verbatim>\<open>imagedefinitions.json\<close>, the file the
  last command writes, is the only declared artifact file. Between the login and the
  image build the script has six more commands: it sets \<^verbatim>\<open>REPOSITORY_URI\<close> to the URI of
  the stack's registry, \<^verbatim>\<open>COMMIT_HASH\<close> to the first seven characters of the resolved
  source version and \<^verbatim>\<open>IMAGE_TAG\<close> to the commit hash (or \<^verbatim>\<open>latest\<close>), and runs
  \<^verbatim>\<open>n install 16\<close>, \<^verbatim>\<open>npm install\<close> and \<^verbatim>\<open>npm test\<close>.
\<close>

theorem build_script_steps:
  assumes "CdkTestStack tk context = Inr st"
  shows
    \<open>map step_of (build_script (buildSpec (TestAPIBuild st))) =
       [RegistryLogin, OtherStep, OtherStep, OtherStep, OtherStep, OtherStep, OtherStep,
        BuildImage, TagImage, PushImage, PushImage, EmitManifest] \<and>
     filter (\<lambda>c. step_of c = OtherStep) (build_script (buildSpec (TestAPIBuild st))) =
       [[Text ''REPOSITORY_URI='', repositoryUri (ecr_id (TestAPIECRRepository st))],
        [Text ''COMMIT_HASH=$(echo $CODEBUILD_RESOLVED_SOURCE_VERSION | cut -c 1-7)''],
        [Text ''IMAGE_TAG=${COMMIT_HASH:=latest}''],
        [Text ''n install 16''],
        [Text ''npm install''],
        [Text ''npm test'']] \<and>
     (\<exists>target.
        take 1 (build_script (buildSpec (TestAPIBuild st))) =
          [[Text (''aws ecr get-login-password --region $AWS_DEFAULT_REGION | docker login --username AWS --password-stdin'' @ target)]]) \<and>
     drop 7 (build_script (buildSpec (TestAPIBuild st))) =
       [[Text ''docker build -t $REPOSITORY_URI:latest .''],
        [Text ''docker tag $REPOSITORY_URI:latest $REPOSITORY_URI:$IMAGE_TAG''],
        [Text ''docker push $REPOSITORY_URI:latest''],
        [Text ''docker push $REPOSITORY_URI:$IMAGE_TAG''],
        [Text ''printf '[{"name":"next-container-task","imageUri":"%s"}]' $REPOSITORY_URI:latest > imagedefinitions.json'']] \<and>
     files (spec_artifacts (buildSpec (TestAPIBuild st))) = [''imagedefinitions.json'']\<close>
proof -
  let ?spec = "buildSpec (TestAPIBuild st)"
  have spec: "?spec =
      buildSpec_fromObject
        \<lparr>ecr_id = ''TestAPIECRRepository'', ecr_repositoryName = ''test-ecr-repository''\<rparr>"
    by (simp add: constructed_build_project [OF assms])
  have steps: "map step_of (build_script ?spec) =
       [RegistryLogin, OtherStep, OtherStep, OtherStep, OtherStep, OtherStep, OtherStep,
        BuildImage, TagImage, PushImage, PushImage, EmitManifest]"
    by (simp only: spec script_steps)
  have others: "filter (\<lambda>c. step_of c = OtherStep) (build_script ?spec) =
       [[Text ''REPOSITORY_URI='', repositoryUri (ecr_id (TestAPIECRRepository st))],
        [Text ''COMMIT_HASH=$(echo $CODEBUILD_RESOLVED_SOURCE_VERSION | cut -c 1-7)''],
        [Text ''IMAGE_TAG=${COMMIT_HASH:=latest}''],
        [Text ''n install 16''],
        [Text ''npm install''],
        [Text ''npm test'']]"
    by (simp add: spec constructed_registry [OF assms] build_script_def
          buildSpec_fromObject_def step_of_def login_note_def)
  have tail:
    \<open>drop 7 (build_script ?spec) =
       [[Text ''docker build -t $REPOSITORY_URI:latest .''],
        [Text ''docker tag $REPOSITORY_URI:latest $REPOSITORY_URI:$IMAGE_TAG''],
        [Text ''docker push $REPOSITORY_URI:latest''],
        [Text ''docker push $REPOSITORY_URI:$IMAGE_TAG''],
        [Text ''printf '[{"name":"next-container-task","imageUri":"%s"}]' $REPOSITORY_URI:latest > imagedefinitions.json'']]\<close>
    by (simp add: spec build_script_def buildSpec_fromObject_def)
  have artifact: "files (spec_artifacts ?spec) = [''imagedefinitions.json'']"
    by (simp add: spec buildSpec_fromObject_def)
  have "take 1 (build_script ?spec) =
      [[Text (''aws ecr get-login-password --region $AWS_DEFAULT_REGION | docker login --username AWS --password-stdin'' @
              ''  '' @ login_note)]]"
    by (simp add: spec build_script_def buildSpec_fromObject_def)
  then have login: "\<exists>target.
      take 1 (build_script ?spec) =
        [[Text (''aws ecr get-login-password --region $AWS_DEFAULT_REGION | docker login --username AWS --password-stdin'' @ target)]]"
    by (rule exI)
  from steps others login tail artifact show ?thesis
    by (simp only: simp_thms)
qed

theorem build_script_steps_witness:
  \<open>\<exists>st. CdkTestStack example_toolkit example_context = Inr st \<and>
     map step_of (build_script (buildSpec (TestAPIBuild st))) =
       [RegistryLogin, OtherStep, OtherStep, OtherStep, OtherStep, OtherStep, OtherStep,
        BuildImage, TagImage, PushImage, PushImage, EmitManifest] \<and>
     (\<exists>target.
        take 1 (build_script (buildSpec (TestAPIBuild st))) =
          [[Text (''aws ecr get-login-password --region $AWS_DEFAULT_REGION | docker login --username AWS --password-stdin'' @ target)]]) \<and>
     files (spec_artifacts (buildSpec (TestAPIBuild st))) = [''imagedefinitions.json'']\<close>
proof -
  obtain st where st: "CdkTestStack example_toolkit example_context = Inr st"
    using example_constructs by blast
  from build_script_steps [OF st] st show ?thesis
    by simp
qed

subsection \<open>Network and access rule\<close>

text \<open>
  C8. The network of a constructed stack is declared with at most one availability zone
  and exactly one subnet configuration; that configuration is of type public, and its
  mask, 23, is the prefix length of the address range 10.0.0.0/23 of the network.
\<close>

theorem vpc_one_public_subnet:
  assumes "CdkTestStack tk context = Inr st"
  shows "maxAzs (TestAPIVPC st) = 1 \<and>
         cidr (TestAPIVPC st) = ''10.0.0.0/23'' \<and>
         (\<exists>sn. subnetConfiguration (TestAPIVPC st) = [sn] \<and>
               subnetType sn = PUBLIC \<and>
               cidrMask sn = 23 \<and>
               cidr_prefix_length (cidr (TestAPIVPC st)) = Some (cidrMask sn))"
proof -
  have "cidr_prefix_length ''10.0.0.0/23'' = Some 23"
    by (simp add: cidr_prefix_length_def digit_of_def)
  then show ?thesis
    by (simp add: constructed_vpc [OF assms])
qed

theorem vpc_one_public_subnet_witness:
  "\<exists>st sn. CdkTestStack example_toolkit example_context = Inr st \<and>
     maxAzs (TestAPIVPC st) = 1 \<and>
     subnetConfiguration (TestAPIVPC st) = [sn] \<and>
     subnetType sn = PUBLIC \<and>
     cidr_prefix_length (cidr (TestAPIVPC st)) = Some (cidrMask sn)"
proof -
  obtain st where st: "CdkTestStack example_toolkit example_context = Inr st"
    using example_constructs by blast
  from vpc_one_public_subnet [OF st] obtain sn where
    "maxAzs (TestAPIVPC st) = 1" "subnetConfiguration (TestAPIVPC st) = [sn]"
    "subnetType sn = PUBLIC" "cidr_prefix_length (cidr (TestAPIVPC st)) = Some (cidrMask sn)"
    by auto
  with st show ?thesis
    by (intro exI [of _ st] exI [of _ sn]) simp
qed

text \<open>
  C5. The security group of a constructed stack is created in the network of the stack
  and has exactly one ingress rule: TCP port 80, from the IPv4 peer of the value that the
  deployment context holds as property \<^verbatim>\<open>myIPAddress\<close> of the object under the key
  \<^verbatim>\<open>env\<close>. That value is a string the toolkit accepts as an address, or a value the
  toolkit takes for an unresolved token.
\<close>

theorem ingress_only_port_80_from_context_address:
  assumes "CdkTestStack tk context = Inr st"
  shows "sg_vpc (TestAPISecurityGroup st) = vpc_id (TestAPIVPC st) \<and>
         (\<exists>kvs v.
            context ''env'' = Some (JObj kvs) \<and>
            map_of kvs ''myIPAddress'' = Some v \<and>
            (isUnresolved tk v \<or> (\<exists>s. v = JStr s \<and> cidr_ok tk s)) \<and>
            ingress_rules (TestAPISecurityGroup st) =
              [\<lparr>rule_peer = CidrIPv4 v, rule_connection = Port_tcp 80\<rparr>])"
proof -
  from constructed_security_group [OF assms] obtain kvs v where
    env: "context ''env'' = Some (JObj kvs)" and
    addr: "map_of kvs ''myIPAddress'' = Some v" and
    ok: "isUnresolved tk v \<or> (\<exists>s. v = JStr s \<and> cidr_ok tk s)" and
    sg: "TestAPISecurityGroup st =
           \<lparr>sg_id = ''TestAPISecurityGroup'', sg_vpc = ''TestAPIVPC'',
            allowAllOutbound = True, securityGroupName = ''TestAPISecurityGroup'',
            ingress_rules = [\<lparr>rule_peer = CidrIPv4 v, rule_connection = Port_tcp 80\<rparr>]\<rparr>"
    by auto
  have "sg_vpc (TestAPISecurityGroup st) = vpc_id (TestAPIVPC st)"
    by (simp add: sg constructed_vpc [OF assms])
  moreover have "ingress_rules (TestAPISecurityGroup st) =
      [\<lparr>rule_peer = CidrIPv4 v, rule_connection = Port_tcp 80\<rparr>]"
    by (simp add: sg)
  ultimately show ?thesis
    using env addr ok by (intro conjI exI [of _ kvs] exI [of _ v]) simp_all
qed

theorem ingress_only_port_80_from_context_address_witness:
  "\<exists>st. CdkTestStack example_toolkit example_context = Inr st \<and>
     sg_vpc (TestAPISecurityGroup st) = vpc_id (TestAPIVPC st) \<and>
     ingress_rules (TestAPISecurityGroup st) =
       [\<lparr>rule_peer = CidrIPv4 (JStr ''203.0.113.7/32''), rule_connection = Port_tcp 80\<rparr>]"
proof -
  obtain st where st: "CdkTestStack example_toolkit example_context = Inr st"
    using example_constructs by blast
  have supplied:
    "example_context ''env'' = Some (JObj [(''myIPAddress'', JStr ''203.0.113.7/32'')])"
    by (simp add: example_context_def)
  from ingress_only_port_80_from_context_address [OF st] obtain kvs v where
    "sg_vpc (TestAPISecurityGroup st) = vpc_id (TestAPIVPC st)"
    "example_context ''env'' = Some (JObj kvs)" "map_of kvs ''myIPAddress'' = Some v"
    "ingress_rules (TestAPISecurityGroup st) =
       [\<lparr>rule_peer = CidrIPv4 v, rule_connection = Port_tcp 80\<rparr>]"
    by auto
  with supplied st show ?thesis
    by (intro exI [of _ st]) auto
qed

text \<open>
  C10. The security group of a constructed stack, the one attached to the service, is
  declared with \<^verbatim>\<open>allowAllOutbound\<close> true; its inbound side is the single rule for TCP
  port 80.
\<close>

theorem security_group_allows_all_outbound:
  assumes "CdkTestStack tk context = Inr st"
  shows "allowAllOutbound (TestAPISecurityGroup st) \<and>
         securityGroups (TestAPIService st) = [sg_id (TestAPISecurityGroup st)] \<and>
         map rule_connection (ingress_rules (TestAPISecurityGroup st)) = [Port_tcp 80]"
  using constructed_security_group [OF assms] constructed_service [OF assms]
  by auto

theorem security_group_allows_all_outbound_witness:
  "\<exists>st. CdkTestStack example_toolkit example_context = Inr st \<and>
     allowAllOutbound (TestAPISecurityGroup st) \<and>
     map rule_connection (ingress_rules (TestAPISecurityGroup st)) = [Port_tcp 80]"
proof -
  obtain st where st: "CdkTestStack example_toolkit example_context = Inr st"
    using example_constructs by blast
  from security_group_allows_all_outbound [OF st] st show ?thesis
    by simp
qed

text \<open>
  C9. When the deployment context has no value under the key \<^verbatim>\<open>env\<close>, the constructor
  throws a TypeError and no stack is produced. When a stack is produced, the context
  holds an object under \<^verbatim>\<open>env\<close>, that object has a property \<^verbatim>\<open>myIPAddress\<close>, and the
  value of that property, which is not \<^verbatim>\<open>undefined\<close>, is the source address of the
  ingress rule: no stack has an address the context did not supply.
\<close>

theorem context_env_required:
  "(context ''env'' = None \<longrightarrow> CdkTestStack tk context = Inl TypeError) \<and>
   (\<forall>st. CdkTestStack tk context = Inr st \<longrightarrow>
      (\<exists>kvs v. context ''env'' = Some (JObj kvs) \<and>
         map_of kvs ''myIPAddress'' = Some v \<and>
         v \<noteq> JUndefined \<and>
         map rule_peer (ingress_rules (TestAPISecurityGroup st)) = [CidrIPv4 v]))"
proof (intro conjI impI allI)
  assume "context ''env'' = None"
  then show "CdkTestStack tk context = Inl TypeError"
    by (simp add: CdkTestStack_def tryGetContext_def)
next
  fix st
  assume st: "CdkTestStack tk context = Inr st"
  from constructed_security_group [OF st] obtain kvs v where
    env: "context ''env'' = Some (JObj kvs)" and
    addr: "map_of kvs ''myIPAddress'' = Some v" and
    ok: "isUnresolved tk v \<or> (\<exists>s. v = JStr s \<and> cidr_ok tk s)" and
    rules: "ingress_rules (TestAPISecurityGroup st) =
              [\<lparr>rule_peer = CidrIPv4 v, rule_connection = Port_tcp 80\<rparr>]"
    by auto
  from ok have "v \<noteq> JUndefined"
    by auto
  with env addr rules
  show "\<exists>kvs v. context ''env'' = Some (JObj kvs) \<and>
          map_of kvs ''myIPAddress'' = Some v \<and>
          v \<noteq> JUndefined \<and>
          map rule_peer (ingress_rules (TestAPISecurityGroup st)) = [CidrIPv4 v]"
    by (intro exI [of _ kvs] exI [of _ v]) simp
qed

theorem context_env_required_witness:
  "(Map.empty :: string \<rightharpoonup> jsval) ''env'' = None \<and>
   CdkTestStack example_toolkit Map.empty = Inl TypeError \<and>
   (\<exists>st. CdkTestStack example_toolkit example_context = Inr st \<and>
      map rule_peer (ingress_rules (TestAPISecurityGroup st)) =
        [CidrIPv4 (JStr ''203.0.113.7/32'')])"
proof -
  have absent: "(Map.empty :: string \<rightharpoonup> jsval) ''env'' = None"
    by simp
  have fails: "CdkTestStack example_toolkit Map.empty = Inl TypeError"
    using context_env_required [of Map.empty example_toolkit] absent by simp
  obtain st where st: "CdkTestStack example_toolkit example_context = Inr st"
    using example_constructs by blast
  have supplied:
    "example_context ''env'' = Some (JObj [(''myIPAddress'', JStr ''203.0.113.7/32'')])"
    by (simp add: example_context_def)
  from context_env_required [of example_context example_toolkit] st
  obtain kvs v where
    "example_context ''env'' = Some (JObj kvs)" "map_of kvs ''myIPAddress'' = Some v"
    "map rule_peer (ingress_rules (TestAPISecurityGroup st)) = [CidrIPv4 v]"
    by auto
  with supplied have "map rule_peer (ingress_rules (TestAPISecurityGroup st)) =
      [CidrIPv4 (JStr ''203.0.113.7/32'')]"
    by auto
  with absent fails st show ?thesis
    by simp
qed

subsection \<open>Task definition and service\<close>

text \<open>
  C6. The task definition of a constructed stack declares 1024 CPU units, 3072 MiB of
  memory, the ARM64 architecture and the VPC network mode, and has exactly one
  container; that container has one port mapping, for container port 80, and its image
  comes from the registry of the stack.
\<close>

theorem task_definition_shape:
  assumes "CdkTestStack tk context = Inr st"
  shows "cpu (TestAPITaskDefinition st) = ''1024'' \<and>
         memoryMiB (TestAPITaskDefinition st) = ''3072'' \<and>
         cpuArchitecture (runtimePlatform (TestAPITaskDefinition st)) = ARM64 \<and>
         networkMode (TestAPITaskDefinition st) = AWS_VPC \<and>
         (\<exists>c. containers (TestAPITaskDefinition st) = [c] \<and>
              map containerPort (portMappings c) = [80] \<and>
              image c = fromEcrRepository (ecr_id (TestAPIECRRepository st)))"
  by (simp add: constructed_task [OF assms] constructed_registry [OF assms])

theorem task_definition_shape_witness:
  "\<exists>st c. CdkTestStack example_toolkit example_context = Inr st \<and>
     cpu (TestAPITaskDefinition st) = ''1024'' \<and>
     memoryMiB (TestAPITaskDefinition st) = ''3072'' \<and>
     containers (TestAPITaskDefinition st) = [c] \<and>
     map containerPort (portMappings c) = [80]"
proof -
  obtain st where st: "CdkTestStack example_toolkit example_context = Inr st"
    using example_constructs by blast
  from task_definition_shape [OF st] obtain c where
    "cpu (TestAPITaskDefinition st) = ''1024''" "memoryMiB (TestAPITaskDefinition st) = ''3072''"
    "containers (TestAPITaskDefinition st) = [c]" "map containerPort (portMappings c) = [80]"
    by auto
  with st show ?thesis
    by (intro exI [of _ st] exI [of _ c]) simp
qed

text \<open>
  C4. The service of a constructed stack is created with a desired count of 0, for the
  task definition and in the cluster of the stack, and its only security group is the
  security group of the stack, which carries the ingress rule for TCP port 80.
\<close>

theorem service_scaled_to_zero:
  assumes "CdkTestStack tk context = Inr st"
  shows "desiredCount (TestAPIService st) = 0 \<and>
         service_taskDefinition (TestAPIService st) = task_id (TestAPITaskDefinition st) \<and>
         service_cluster (TestAPIService st) = cluster_id (TestAPICluster st) \<and>
         securityGroups (TestAPIService st) = [sg_id (TestAPISecurityGroup st)] \<and>
         (\<exists>p. ingress_rules (TestAPISecurityGroup st) =
                [\<lparr>rule_peer = p, rule_connection = Port_tcp 80\<rparr>])"
proof -
  from constructed_security_group [OF assms] obtain v where
    "TestAPISecurityGroup st =
           \<lparr>sg_id = ''TestAPISecurityGroup'', sg_vpc = ''TestAPIVPC'',
            allowAllOutbound = True, securityGroupName = ''TestAPISecurityGroup'',
            ingress_rules = [\<lparr>rule_peer = CidrIPv4 v, rule_connection = Port_tcp 80\<rparr>]\<rparr>"
    by auto
  then show ?thesis
    by (simp add: constructed_service [OF assms] constructed_task [OF assms]
          constructed_cluster [OF assms])
qed

theorem service_scaled_to_zero_witness:
  "\<exists>st. CdkTestStack example_toolkit example_context = Inr st \<and>
     desiredCount (TestAPIService st) = 0 \<and>
     service_taskDefinition (TestAPIService st) = task_id (TestAPITaskDefinition st) \<and>
     service_cluster (TestAPIService st) = cluster_id (TestAPICluster st) \<and>
     securityGroups (TestAPIService st) = [sg_id (TestAPISecurityGroup st)]"
proof -
  obtain st where st: "CdkTestStack example_toolkit example_context = Inr st"
    using example_constructs by blast
  from service_scaled_to_zero [OF st] st show ?thesis
    by simp
qed

text \<open>
  C7. In a constructed stack the security group attached to the service is created in
  the network the cluster of the service is bound to, the one network of the stack.
\<close>

theorem service_network_is_cluster_network:
  assumes "CdkTestStack tk context = Inr st"
  shows "securityGroups (TestAPIService st) = [sg_id (TestAPISecurityGroup st)] \<and>
         service_cluster (TestAPIService st) = cluster_id (TestAPICluster st) \<and>
         sg_vpc (TestAPISecurityGroup st) = cluster_vpc (TestAPICluster st) \<and>
         cluster_vpc (TestAPICluster st) = vpc_id (TestAPIVPC st)"
  using constructed_security_group [OF assms]
  by (auto simp: constructed_service [OF assms] constructed_cluster [OF assms]
        constructed_vpc [OF assms])

theorem service_network_is_cluster_network_witness:
  "\<exists>st. CdkTestStack example_toolkit example_context = Inr st \<and>
     sg_vpc (TestAPISecurityGroup st) = cluster_vpc (TestAPICluster st) \<and>
     cluster_vpc (TestAPICluster st) = vpc_id (TestAPIVPC st)"
proof -
  obtain st where st: "CdkTestStack example_toolkit example_context = Inr st"
    using example_constructs by blast
  from service_network_is_cluster_network [OF st] st show ?thesis
    by simp
qed

end
